theory Spec2Isabelle
  imports Main
begin

section \<open>Exceptions and results\<close>

text \<open>
  Every Python exception the modelled code can raise is a constructor. A function that
  can raise returns \<open>exception + 'a\<close>, with \<open>Inl\<close> the raised exception. The web
  framework turns an \<open>HTTPException\<close> into a response with that status code and detail;
  any other exception that reaches the framework is an unhandled error (a 500 response).
  \<open>JWTError\<close> stands for the class and its subclasses (expired signature, bad claims);
  \<open>ValueError\<close> likewise covers its subclasses.
\<close>

datatype exception =
    HTTPException (status_code: nat) (detail: string) (headers: "(string \<times> string) list")
  | JWTError
  | KeyError string
  | AttributeError
  | TypeError
  | ValueError
  | ConnectionError
  | UnpicklingError

definition HTTP_401_UNAUTHORIZED :: nat where "HTTP_401_UNAUTHORIZED = 401"
definition HTTP_404_NOT_FOUND :: nat where "HTTP_404_NOT_FOUND = 404"
definition HTTP_422_UNPROCESSABLE_ENTITY :: nat where "HTTP_422_UNPROCESSABLE_ENTITY = 422"

section \<open>Dictionaries of claims\<close>

text \<open>
  A JWT payload is a Python dict from strings to JSON values; the values that occur are
  strings and integers (the library writes datetimes as integer seconds). The dict is an
  association list in insertion order; \<open>dict_set\<close> is \<open>d[k] = v\<close>, \<open>map_of d k\<close> is
  \<open>d.get(k)\<close> and \<open>dict_getitem\<close> is \<open>d[k]\<close>, which raises \<open>KeyError\<close>.
\<close>

datatype claim = Str string | Num int

type_synonym payload = "(string \<times> claim) list"

fun dict_set :: "string \<Rightarrow> claim \<Rightarrow> payload \<Rightarrow> payload" where
  "dict_set k v [] = [(k, v)]"
| "dict_set k v ((k', v') # d) = (if k' = k then (k, v) # d else (k', v') # dict_set k v d)"

definition dict_getitem :: "payload \<Rightarrow> string \<Rightarrow> exception + claim" where
  "dict_getitem d k = (case map_of d k of None \<Rightarrow> Inl (KeyError k) | Some v \<Rightarrow> Inr v)"

section \<open>Signed tokens\<close>

text \<open>
  The JWT library is a collaborator; it is modelled symbolically, as perfect
  cryptography: a token string is either the encoding \<open>JWT alg key claims\<close> of a payload
  signed with a key under an algorithm, or a string that is no such encoding. Two token
  strings are equal exactly when these values are equal. Time is in whole seconds.

  \<open>jwt_decode\<close> fails with \<open>JWTError\<close> on a string that is not a token, on a token signed
  with another key or algorithm, and on a payload that fails the library's checks of the
  registered claims, as \<open>decode\<close> is called here (no audience, issuer, subject or access
  token given): \<open>iat\<close> must be a number; \<open>nbf\<close> a number not after now; \<open>exp\<close> a number
  not before now; \<open>aud\<close> and \<open>at_hash\<close> must be absent, having nothing to be compared with;
  \<open>sub\<close> and \<open>jti\<close> must be strings. Otherwise it returns the payload. Claim values are
  strings or integers; a numeric claim written as a string is taken as invalid.
\<close>

datatype token = JWT string string payload | NotJWT string

definition jwt_encode :: "payload \<Rightarrow> string \<Rightarrow> string \<Rightarrow> token" where
  "jwt_encode claims key alg = JWT alg key claims"

definition validate_claims :: "payload \<Rightarrow> int \<Rightarrow> bool" where
  "validate_claims claims now =
     ((case map_of claims ''iat'' of
         None \<Rightarrow> True | Some (Num _) \<Rightarrow> True | Some (Str _) \<Rightarrow> False) \<and>
      (case map_of claims ''nbf'' of
         None \<Rightarrow> True | Some (Num n) \<Rightarrow> n \<le> now | Some (Str _) \<Rightarrow> False) \<and>
      (case map_of claims ''exp'' of
         None \<Rightarrow> True | Some (Num e) \<Rightarrow> now \<le> e | Some (Str _) \<Rightarrow> False) \<and>
      map_of claims ''aud'' = None \<and>
      (case map_of claims ''sub'' of
         None \<Rightarrow> True | Some (Str _) \<Rightarrow> True | Some (Num _) \<Rightarrow> False) \<and>
      (case map_of claims ''jti'' of
         None \<Rightarrow> True | Some (Str _) \<Rightarrow> True | Some (Num _) \<Rightarrow> False) \<and>
      map_of claims ''at_hash'' = None)"

definition jwt_decode :: "token \<Rightarrow> string \<Rightarrow> string list \<Rightarrow> int \<Rightarrow> exception + payload" where
  "jwt_decode tok key algorithms now =
     (case tok of
        NotJWT _ \<Rightarrow> Inl JWTError
      | JWT alg k claims \<Rightarrow>
          if alg \<in> set algorithms \<and> k = key \<and> validate_claims claims now then Inr claims
          else Inl JWTError)"

section \<open>Settings and the token manager\<close>

record settings =
  secret_key :: string
  algorithm :: string

text \<open>
  \<open>create_access_token\<close>, \<open>create_refresh_token\<close> and \<open>create_email_token\<close> of
  \<open>TokenManager\<close>; \<open>now\<close> is \<open>datetime.utcnow()\<close>. \<open>if expires_delta:\<close> is false for
  \<open>None\<close> and for zero.
\<close>

definition create_access_token :: "settings \<Rightarrow> payload \<Rightarrow> int option \<Rightarrow> int \<Rightarrow> token" where
  "create_access_token cfg data expires_delta now =
     (let to_encode = data;
          expire = (case expires_delta of
                      Some d \<Rightarrow> if d \<noteq> 0 then now + d else now + 15 * 60
                    | None \<Rightarrow> now + 15 * 60);
          to_encode = dict_set ''scope'' (Str ''access_token'')
                        (dict_set ''exp'' (Num expire) (dict_set ''iat'' (Num now) to_encode))
      in jwt_encode to_encode (secret_key cfg) (algorithm cfg))"

definition create_refresh_token :: "settings \<Rightarrow> payload \<Rightarrow> int option \<Rightarrow> int \<Rightarrow> token" where
  "create_refresh_token cfg data expires_delta now =
     (let to_encode = data;
          expire = (case expires_delta of
                      Some d \<Rightarrow> if d \<noteq> 0 then now + d else now + 7 * 86400
                    | None \<Rightarrow> now + 7 * 86400);
          to_encode = dict_set ''scope'' (Str ''refresh_token'')
                        (dict_set ''exp'' (Num expire) (dict_set ''iat'' (Num now) to_encode))
      in jwt_encode to_encode (secret_key cfg) (algorithm cfg))"

definition create_email_token :: "settings \<Rightarrow> payload \<Rightarrow> int \<Rightarrow> token" where
  "create_email_token cfg data now =
     (let to_encode = data;
          expire = now + 7 * 86400;
          to_encode = dict_set ''scope'' (Str ''email_token'')
                        (dict_set ''exp'' (Num expire) (dict_set ''iat'' (Num now) to_encode))
      in jwt_encode to_encode (secret_key cfg) (algorithm cfg))"

definition credentials_exception :: exception where
  "credentials_exception =
     HTTPException HTTP_401_UNAUTHORIZED ''Could not validate credentials''
       [(''WWW-Authenticate'', ''Bearer'')]"

text \<open>
  \<open>decode_refresh_token\<close>: the payload is indexed with \<open>payload['scope']\<close> and
  \<open>payload['sub']\<close>, so a missing key raises \<open>KeyError\<close>, which the handler for
  \<open>JWTError\<close> does not catch.
\<close>

definition decode_refresh_token :: "settings \<Rightarrow> token \<Rightarrow> int \<Rightarrow> exception + claim" where
  "decode_refresh_token cfg tok now =
     (case jwt_decode tok (secret_key cfg) [algorithm cfg] now of
        Inl _ \<Rightarrow> Inl (HTTPException HTTP_401_UNAUTHORIZED ''Could not validate credentials'' [])
      | Inr payload \<Rightarrow>
          (case dict_getitem payload ''scope'' of
             Inl e \<Rightarrow> Inl e
           | Inr scope \<Rightarrow>
               if scope = Str ''refresh_token'' then dict_getitem payload ''sub''
               else Inl (HTTPException HTTP_401_UNAUTHORIZED ''Invalid scope for token'' [])))"

text \<open>
  \<open>get_email_from_token\<close>: when the scope is not \<open>email_token\<close> the function body ends
  without a \<open>return\<close>, so Python returns \<open>None\<close>; the result is therefore optional.
\<close>

definition get_email_from_token :: "settings \<Rightarrow> token \<Rightarrow> int \<Rightarrow> exception + claim option" where
  "get_email_from_token cfg tok now =
     (case jwt_decode tok (secret_key cfg) [algorithm cfg] now of
        Inl _ \<Rightarrow> Inl (HTTPException HTTP_422_UNPROCESSABLE_ENTITY
                        ''Invalid token for email verification'' [])
      | Inr payload \<Rightarrow>
          (case dict_getitem payload ''scope'' of
             Inl e \<Rightarrow> Inl e
           | Inr scope \<Rightarrow>
               if scope = Str ''email_token''
               then (case dict_getitem payload ''sub'' of Inl e \<Rightarrow> Inl e | Inr email \<Rightarrow> Inr (Some email))
               else Inr None))"

section \<open>Passwords\<close>

text \<open>
  The password library is a collaborator: a \<open>CryptContext\<close> whose only scheme is
  bcrypt. A stored hash is a string. The bcrypt digest itself is not modelled; it is the
  parameter \<open>digest\<close> (identifier, cost, salt, password to the 31 digest characters) of
  every function that hashes or verifies, and the facts below hold for every digest.

  What is modelled is how the context reads a stored hash. It identifies the hash by its
  identifier prefix (\<open>bcrypt_parse_ident\<close>) and raises \<open>UnknownHashError\<close> when none
  matches. The handler then checks the password's size, parses the hash
  (\<open>bcrypt_from_string\<close>: the older \<open>$2x$\<close> variant is refused, the rest must split at
  \<open>$\<close> into a cost and the data, the cost must be the two-digit numeral of a number from
  4 to 31, the data 22 salt and 31 digest characters of the bcrypt alphabet), refuses a
  password with a NUL byte, and compares the digest of the password with the stored one.
  Every failure is a \<open>ValueError\<close> or a subclass of it, so the order of the checks does
  not show in the result. A hash whose digest is missing is parsed by the library and
  refused when verifying; here \<open>bcrypt_from_string\<close>, which only verifying uses, refuses
  it.

  A string is its sequence of bytes. The library counts a password's size in characters,
  so the size check is exact for ASCII passwords; a non-ASCII password between 4097 bytes
  and 4096 characters is refused here and accepted there, and no fact below is about
  such a password returning a boolean. A stored hash of \<open>None\<close> (for which the context
  returns \<open>False\<close>) does not occur: the column holds strings.
\<close>

type_synonym bcrypt_digest = "string \<Rightarrow> nat \<Rightarrow> string \<Rightarrow> string \<Rightarrow> string"

definition bcrypt_ident_values :: "string list" where
  "bcrypt_ident_values = [''$2$'', ''$2a$'', ''$2x$'', ''$2y$'', ''$2b$'']"

definition bcrypt64_chars :: string where
  "bcrypt64_chars = ''./ABCDEFGHIJKLMNOPQRSTUVWXYZabcdefghijklmnopqrstuvwxyz0123456789''"

definition MAX_PASSWORD_SIZE :: nat where "MAX_PASSWORD_SIZE = 4096"

text \<open>\<open>'%02d' % n\<close> for a number below 100, and \<open>s.split(sep)\<close> for a one-character separator.\<close>

definition two_digits :: "nat \<Rightarrow> string" where
  "two_digits n = [''0123456789'' ! (n div 10), ''0123456789'' ! (n mod 10)]"

fun split_on :: "char \<Rightarrow> string \<Rightarrow> string list" where
  "split_on sep [] = [[]]"
| "split_on sep (c # cs) =
     (if c = sep then [] # split_on sep cs
      else (case split_on sep cs of [] \<Rightarrow> [[c]] | p # ps \<Rightarrow> (c # p) # ps))"

definition bcrypt_parse_ident :: "string \<Rightarrow> (string \<times> string) option" where
  "bcrypt_parse_ident h =
     (case find (\<lambda>i. take (length i) h = i) bcrypt_ident_values of
        None \<Rightarrow> None
      | Some i \<Rightarrow> Some (i, drop (length i) h))"

text \<open>
  The cost field: \<open>int(rounds_str)\<close> must print back as \<open>'%02d'\<close> and lie between the
  handler's \<open>min_rounds = 4\<close> and \<open>max_rounds = 31\<close>.
\<close>

definition rounds_of_string :: "string \<Rightarrow> nat option" where
  "rounds_of_string s = find (\<lambda>n. two_digits n = s) [4..<32]"

definition bcrypt_from_string :: "string \<Rightarrow> exception + string \<times> nat \<times> string \<times> string" where
  "bcrypt_from_string h =
     (case bcrypt_parse_ident h of
        None \<Rightarrow> Inl ValueError
      | Some (ident, tail) \<Rightarrow>
          if ident = ''$2x$'' then Inl ValueError
          else
            (case split_on CHR ''$'' tail of
               [rounds_str, data] \<Rightarrow>
                 (case rounds_of_string rounds_str of
                    None \<Rightarrow> Inl ValueError
                  | Some rounds \<Rightarrow>
                      (let salt = take 22 data; chk = drop 22 data
                       in if length salt = 22 \<and> list_all (\<lambda>c. c \<in> set bcrypt64_chars) salt \<and>
                             length chk = 31 \<and> list_all (\<lambda>c. c \<in> set bcrypt64_chars) chk
                          then Inr (ident, rounds, salt, chk)
                          else Inl ValueError))
             | _ \<Rightarrow> Inl ValueError))"

definition pwd_context_verify :: "bcrypt_digest \<Rightarrow> string \<Rightarrow> string \<Rightarrow> exception + bool" where
  "pwd_context_verify digest secret hash =
     (case bcrypt_parse_ident hash of
        None \<Rightarrow> Inl ValueError
      | Some _ \<Rightarrow>
          if MAX_PASSWORD_SIZE < length secret then Inl ValueError
          else
            (case bcrypt_from_string hash of
               Inl e \<Rightarrow> Inl e
             | Inr (ident, rounds, salt, chk) \<Rightarrow>
                 if CHR 0x00 \<in> set secret then Inl ValueError
                 else Inr (digest ident rounds salt secret = chk)))"

text \<open>
  Hashing uses the context's defaults, identifier \<open>$2b$\<close> and cost 12; \<open>salt\<close> is the
  salt the library draws.
\<close>

definition pwd_context_hash :: "bcrypt_digest \<Rightarrow> string \<Rightarrow> string \<Rightarrow> exception + string" where
  "pwd_context_hash digest salt secret =
     (if MAX_PASSWORD_SIZE < length secret \<or> CHR 0x00 \<in> set secret then Inl ValueError
      else Inr (''$2b$'' @ two_digits 12 @ ''$'' @ salt @ digest ''$2b$'' 12 salt secret))"

definition verify_password :: "bcrypt_digest \<Rightarrow> string \<Rightarrow> string \<Rightarrow> exception + bool" where
  "verify_password digest plain_password hashed_password =
     pwd_context_verify digest plain_password hashed_password"

definition get_password_hash :: "bcrypt_digest \<Rightarrow> string \<Rightarrow> string \<Rightarrow> exception + string" where
  "get_password_hash digest salt pw = pwd_context_hash digest salt pw"

text \<open>
  The form of a bcrypt hash, stated on its own: an identifier, the two-digit cost, \<open>$\<close>,
  and 53 characters of the bcrypt alphabet (22 of salt, 31 of digest). A stored string
  without this form is a malformed hash.
\<close>

definition bcrypt_well_formed :: "string \<Rightarrow> bool" where
  "bcrypt_well_formed h =
     (\<exists>ident\<in>set [''$2$'', ''$2a$'', ''$2y$'', ''$2b$'']. \<exists>rounds\<in>{4..31}. \<exists>body.
        h = ident @ two_digits rounds @ ''$'' @ body \<and> length body = 53 \<and>
        set body \<subseteq> set bcrypt64_chars)"

section \<open>Users and the persistent store\<close>

text \<open>
  The ORM classes are not part of the sources; the rows carry the attributes the code
  reads and writes. \<open>user_id\<close> is the primary key \<open>id\<close>, and \<open>contact_user_id\<close> is the
  owner of a contact, which \<open>filter_by(user=user)\<close> compares with the user's key. A
  table is the list of its rows in query order, and \<open>first()\<close> is the first match.
\<close>

datatype Role = Role_admin | Role_moderator | Role_user

record User =
  user_id :: int
  username :: string
  email :: string
  password :: string
  confirmed :: bool
  refresh_token :: "token option"
  roles :: Role
  avatar :: string

record date =
  year :: int
  month :: int
  day :: int

record Contact =
  contact_id :: int
  first_name :: string
  last_name :: string
  contact_email :: string
  phone :: "string option"
  birthday :: "date option"
  comments :: "string option"
  favorite :: bool
  contact_user_id :: int

record db =
  users :: "User list"
  contacts :: "Contact list"

definition get_user_by_email :: "claim \<Rightarrow> db \<Rightarrow> User option" where
  "get_user_by_email em d = find (\<lambda>u. Str (email u) = em) (users d)"

text \<open>
  \<open>update_token\<close> assigns the attribute of the row object and commits: the row with the
  user's primary key is rewritten.
\<close>

definition update_token :: "User \<Rightarrow> token option \<Rightarrow> db \<Rightarrow> db" where
  "update_token usr tok d =
     d\<lparr>users := map (\<lambda>u. if user_id u = user_id usr then u\<lparr>refresh_token := tok\<rparr> else u)
                    (users d)\<rparr>"

section \<open>The cache\<close>

text \<open>
  The Redis client: a key-value store whose entries may carry an expiry time, behind a
  connection that may be down; every command on an unreachable server raises
  \<open>ConnectionError\<close>. A stored value is the pickle of a user, the pickle of \<open>None\<close>, or
  some other bytes, which \<open>pickle.loads\<close> rejects.
\<close>

datatype blob = Pickled "User option" | Bytes string

record redis =
  reachable :: bool
  store :: "string \<rightharpoonup> blob \<times> int option"

definition redis_get :: "redis \<Rightarrow> string \<Rightarrow> int \<Rightarrow> exception + blob option" where
  "redis_get r key now =
     (if \<not> reachable r then Inl ConnectionError
      else Inr (case store r key of
                  None \<Rightarrow> None
                | Some (v, None) \<Rightarrow> Some v
                | Some (v, Some t) \<Rightarrow> if t \<le> now then None else Some v))"

definition redis_set :: "redis \<Rightarrow> string \<Rightarrow> blob \<Rightarrow> exception + redis" where
  "redis_set r key v =
     (if \<not> reachable r then Inl ConnectionError
      else Inr (r\<lparr>store := (store r)(key \<mapsto> (v, None))\<rparr>))"

definition redis_expire :: "redis \<Rightarrow> string \<Rightarrow> int \<Rightarrow> int \<Rightarrow> exception + redis" where
  "redis_expire r key seconds now =
     (if \<not> reachable r then Inl ConnectionError
      else Inr (case store r key of
                  None \<Rightarrow> r
                | Some (v, _) \<Rightarrow> r\<lparr>store := (store r)(key \<mapsto> (v, Some (now + seconds)))\<rparr>))"

definition pickle_dumps :: "User option \<Rightarrow> blob" where
  "pickle_dumps u = Pickled u"

definition pickle_loads :: "blob \<Rightarrow> exception + User option" where
  "pickle_loads b = (case b of Pickled u \<Rightarrow> Inr u | Bytes _ \<Rightarrow> Inl UnpicklingError)"

text \<open>The f-string \<open>f"user:{email}"\<close>: \<open>str\<close> of a string is itself, of an integer its decimal numeral.\<close>

fun digits :: "nat \<Rightarrow> string" where
  "digits n = (if n < 10 then [char_of (48 + n)]
               else digits (n div 10) @ [char_of (48 + n mod 10)])"

definition py_str :: "claim \<Rightarrow> string" where
  "py_str c = (case c of Str s \<Rightarrow> s
               | Num i \<Rightarrow> if i < 0 then CHR ''-'' # digits (nat (- i)) else digits (nat i))"

definition user_key :: "claim \<Rightarrow> string" where
  "user_key em = ''user:'' @ py_str em"

text \<open>
  The two cache helpers of the users repository. Both wrap every cache command in
  \<open>try ... except Exception\<close>, so they cannot raise: a failed read is a miss and a failed
  write is dropped. \<open>cache = None\<close> is the absent cache. When the cached pickle is of
  \<open>None\<close>, reading \<open>user.email\<close> for the log line raises inside the \<open>try\<close>, and the
  result is \<open>None\<close>.
\<close>

definition get_cache_user_by_email :: "string \<Rightarrow> redis option \<Rightarrow> int \<Rightarrow> User option" where
  "get_cache_user_by_email em cache now =
     (if em = [] then None
      else case cache of
             None \<Rightarrow> None
           | Some r \<Rightarrow>
               (case redis_get r (''user:'' @ em) now of
                  Inl _ \<Rightarrow> None
                | Inr None \<Rightarrow> None
                | Inr (Some user_bytes) \<Rightarrow>
                    (case pickle_loads user_bytes of
                       Inl _ \<Rightarrow> None
                     | Inr None \<Rightarrow> None
                     | Inr (Some usr) \<Rightarrow> Some usr)))"

definition update_cache_user :: "User \<Rightarrow> redis option \<Rightarrow> int \<Rightarrow> redis option" where
  "update_cache_user usr cache now =
     (case cache of
        None \<Rightarrow> None
      | Some r \<Rightarrow>
          (case redis_set r (''user:'' @ email usr) (pickle_dumps (Some usr)) of
             Inl _ \<Rightarrow> Some r
           | Inr r' \<Rightarrow>
               (case redis_expire r' (''user:'' @ email usr) 900 now of
                  Inl _ \<Rightarrow> Some r'
                | Inr r'' \<Rightarrow> Some r'')))"

section \<open>The session resolver\<close>

text \<open>
  \<open>TokenManager.get_current_user\<close>; \<open>access_subject\<close> is its first block, the
  \<open>try\<close> that decodes the token and reads the subject. The token is checked inside \<open>try ... except
  JWTError\<close>; the cache commands \<open>self.r.get\<close>, \<open>self.r.set\<close>, \<open>self.r.expire\<close> and
  \<open>pickle.loads\<close> stand outside any handler, so what they raise leaves the function.
  After either branch the final \<open>if user is None\<close> raises the credentials exception; the
  user is \<open>None\<close> there only when the cached pickle is of \<open>None\<close>. The result is the
  returned user or the raised exception, and the cache afterwards.
\<close>

definition access_subject :: "settings \<Rightarrow> token \<Rightarrow> int \<Rightarrow> exception + claim" where
  "access_subject cfg tok now =
     (case jwt_decode tok (secret_key cfg) [algorithm cfg] now of
        Inl _ \<Rightarrow> Inl credentials_exception
      | Inr payload \<Rightarrow>
          if map_of payload ''scope'' = Some (Str ''access_token'')
          then (case map_of payload ''sub'' of
                  None \<Rightarrow> Inl credentials_exception
                | Some em \<Rightarrow> Inr em)
          else Inl credentials_exception)"

definition get_current_user ::
  "settings \<Rightarrow> token \<Rightarrow> db \<Rightarrow> redis \<Rightarrow> int \<Rightarrow> (exception + User) \<times> redis" where
  "get_current_user cfg tok d r now =
     (case access_subject cfg tok now of
        Inl e \<Rightarrow> (Inl e, r)
      | Inr em \<Rightarrow>
          (case redis_get r (user_key em) now of
             Inl e \<Rightarrow> (Inl e, r)
           | Inr None \<Rightarrow>
               (case get_user_by_email em d of
                  None \<Rightarrow> (Inl credentials_exception, r)
                | Some usr \<Rightarrow>
                    (case redis_set r (user_key em) (pickle_dumps (Some usr)) of
                       Inl e \<Rightarrow> (Inl e, r)
                     | Inr r' \<Rightarrow>
                         (case redis_expire r' (user_key em) 900 now of
                            Inl e \<Rightarrow> (Inl e, r')
                          | Inr r'' \<Rightarrow> (Inr usr, r''))))
           | Inr (Some cached) \<Rightarrow>
               (case pickle_loads cached of
                  Inl e \<Rightarrow> (Inl e, r)
                | Inr None \<Rightarrow> (Inl credentials_exception, r)
                | Inr (Some usr) \<Rightarrow> (Inr usr, r))))"

section \<open>Login and refresh\<close>

record LoginForm =
  form_username :: string
  form_password :: string

datatype TokenModel = TokenModel token token string

definition login ::
  "settings \<Rightarrow> bcrypt_digest \<Rightarrow> LoginForm \<Rightarrow> db \<Rightarrow> int \<Rightarrow> (exception + TokenModel) \<times> db" where
  "login cfg digest body d now =
     (case get_user_by_email (Str (form_username body)) d of
        None \<Rightarrow> (Inl (HTTPException HTTP_401_UNAUTHORIZED ''Invalid email'' []), d)
      | Some usr \<Rightarrow>
          if \<not> confirmed usr
          then (Inl (HTTPException HTTP_401_UNAUTHORIZED ''Email not confirmed'' []), d)
          else
            (case verify_password digest (form_password body) (password usr) of
               Inl e \<Rightarrow> (Inl e, d)
             | Inr ok \<Rightarrow>
                 if \<not> ok
                 then (Inl (HTTPException HTTP_401_UNAUTHORIZED ''Invalid password'' []), d)
                 else
                   (let access_token = create_access_token cfg [(''sub'', Str (email usr))] None now;
                        new_token = create_refresh_token cfg [(''sub'', Str (email usr))] None now
                    in (Inr (TokenModel access_token new_token ''bearer''),
                        update_token usr (Some new_token) d))))"

text \<open>
  The refresh route. \<open>user.refresh_token\<close> is read without a test for \<open>None\<close>, so an
  email without a row raises \<open>AttributeError\<close>. When the presented token is the stored
  one, the route builds the access token and then calls
  \<open>decode_refresh_token(data={"sub": email})\<close>: that method has no parameter \<open>data\<close>,
  so the call raises \<open>TypeError\<close> before anything is stored or returned.
\<close>

definition refresh_token_route ::
  "settings \<Rightarrow> token \<Rightarrow> db \<Rightarrow> int \<Rightarrow> (exception + TokenModel) \<times> db" where
  "refresh_token_route cfg tok d now =
     (case decode_refresh_token cfg tok now of
        Inl e \<Rightarrow> (Inl e, d)
      | Inr em \<Rightarrow>
          (case get_user_by_email em d of
             None \<Rightarrow> (Inl AttributeError, d)
           | Some usr \<Rightarrow>
               if refresh_token usr \<noteq> Some tok
               then (Inl (HTTPException HTTP_401_UNAUTHORIZED ''Invalid refresh token'' []),
                     update_token usr None d)
               else
                 (let access_token = create_access_token cfg [(''sub'', em)] None now
                  in (Inl TypeError, d))))"

section \<open>Contacts\<close>

text \<open>
  \<open>get_contact_by_id\<close> of the contacts repository and the body of the route
  \<open>get_contact\<close>. The route's dependencies (the session resolver and the role check)
  run before the body and supply \<open>current_user\<close>; they do not read the contacts.
\<close>

definition get_contact_by_id :: "int \<Rightarrow> db \<Rightarrow> User \<Rightarrow> Contact option" where
  "get_contact_by_id cid d usr =
     find (\<lambda>c. contact_id c = cid \<and> contact_user_id c = user_id usr) (contacts d)"

definition get_contact :: "int \<Rightarrow> db \<Rightarrow> User \<Rightarrow> exception + Contact" where
  "get_contact cid d current_user =
     (case get_contact_by_id cid d current_user of
        None \<Rightarrow> Inl (HTTPException HTTP_404_NOT_FOUND ''Not found'' [])
      | Some contact \<Rightarrow> Inr contact)"

section \<open>Calendar dates\<close>

text \<open>
  The standard library's \<open>date\<close>: the proleptic Gregorian calendar, a date being valid
  when \<open>_check_date_fields\<close> accepts it. \<open>replace(year=y)\<close> builds a new date and so
  raises \<open>ValueError\<close> when the fields do not form one (29 February in a common year).
  The difference of two dates is the difference of their ordinals, and dates compare as
  the triples (year, month, day).
\<close>

definition is_leap :: "int \<Rightarrow> bool" where
  "is_leap y = (y mod 4 = 0 \<and> (y mod 100 \<noteq> 0 \<or> y mod 400 = 0))"

definition days_before_year :: "int \<Rightarrow> int" where
  "days_before_year y = (let y' = y - 1 in y' * 365 + y' div 4 - y' div 100 + y' div 400)"

definition DAYS_IN_MONTH :: "int list" where
  "DAYS_IN_MONTH = [-1, 31, 28, 31, 30, 31, 30, 31, 31, 30, 31, 30, 31]"

definition DAYS_BEFORE_MONTH :: "int list" where
  "DAYS_BEFORE_MONTH = [-1, 0, 31, 59, 90, 120, 151, 181, 212, 243, 273, 304, 334]"

definition days_in_month :: "int \<Rightarrow> int \<Rightarrow> int" where
  "days_in_month y m = (if m = 2 \<and> is_leap y then 29 else DAYS_IN_MONTH ! nat m)"

definition days_before_month :: "int \<Rightarrow> int \<Rightarrow> int" where
  "days_before_month y m = DAYS_BEFORE_MONTH ! nat m + (if m > 2 \<and> is_leap y then 1 else 0)"

definition ymd2ord :: "int \<Rightarrow> int \<Rightarrow> int \<Rightarrow> int" where
  "ymd2ord y m d = days_before_year y + days_before_month y m + d"

definition check_date_fields :: "int \<Rightarrow> int \<Rightarrow> int \<Rightarrow> bool" where
  "check_date_fields y m d =
     (1 \<le> y \<and> y \<le> 9999 \<and> 1 \<le> m \<and> m \<le> 12 \<and> 1 \<le> d \<and> d \<le> days_in_month y m)"

definition valid_date :: "date \<Rightarrow> bool" where
  "valid_date dt = check_date_fields (year dt) (month dt) (day dt)"

definition toordinal :: "date \<Rightarrow> int" where
  "toordinal dt = ymd2ord (year dt) (month dt) (day dt)"

definition date_replace_year :: "date \<Rightarrow> int \<Rightarrow> exception + date" where
  "date_replace_year dt y =
     (if check_date_fields y (month dt) (day dt) then Inr (dt\<lparr>year := y\<rparr>) else Inl ValueError)"

definition date_sub_days :: "date \<Rightarrow> date \<Rightarrow> int" where
  "date_sub_days a b = toordinal a - toordinal b"

definition date_lt :: "date \<Rightarrow> date \<Rightarrow> bool" where
  "date_lt a b =
     (year a < year b \<or>
      (year a = year b \<and> (month a < month b \<or> (month a = month b \<and> day a < day b))))"

section \<open>Birthday search\<close>

text \<open>
  \<open>search_birthday\<close>. The parameters are a dict; \<open>par.get("days", 7)\<close> defaults, and
  \<open>offset(None)\<close> and \<open>limit(None)\<close> leave the query as it is. The loop appends the
  contacts whose birthday, moved to the current year, is \<open>days_until_birthday\<close> days
  after today with \<open>days_until_birthday in range(days)\<close>, where \<open>days\<close> is the
  parameter plus one. \<open>now\<close> is today's date.
\<close>

definition in_range :: "int \<Rightarrow> int \<Rightarrow> bool" where
  "in_range x n = (0 \<le> x \<and> x < n)"

definition sql_offset :: "int option \<Rightarrow> 'a list \<Rightarrow> 'a list" where
  "sql_offset n xs = (case n of None \<Rightarrow> xs | Some k \<Rightarrow> drop (nat k) xs)"

definition sql_limit :: "int option \<Rightarrow> 'a list \<Rightarrow> 'a list" where
  "sql_limit n xs = (case n of None \<Rightarrow> xs | Some k \<Rightarrow> take (nat k) xs)"

fun birthday_loop :: "int \<Rightarrow> date \<Rightarrow> Contact list \<Rightarrow> Contact list \<Rightarrow> exception + Contact list" where
  "birthday_loop days now [] birthdays_contacts = Inr birthdays_contacts"
| "birthday_loop days now (contact # rest) birthdays_contacts =
     (case birthday contact of
        None \<Rightarrow> birthday_loop days now rest birthdays_contacts
      | Some b \<Rightarrow>
          (case date_replace_year b (year now) of
             Inl e \<Rightarrow> Inl e
           | Inr birthday_this_year \<Rightarrow>
               (let days_until_birthday = date_sub_days birthday_this_year now
                in if in_range days_until_birthday days
                   then birthday_loop days now rest (birthdays_contacts @ [contact])
                   else birthday_loop days now rest birthdays_contacts)))"

definition birthday_page :: "(string \<rightharpoonup> int) \<Rightarrow> db \<Rightarrow> User \<Rightarrow> Contact list" where
  "birthday_page par d usr =
     (let query = filter (\<lambda>c. contact_user_id c = user_id usr) (contacts d)
      in sql_limit (par ''limit'') (sql_offset (par ''skip'') query))"

definition search_birthday ::
  "(string \<rightharpoonup> int) \<Rightarrow> db \<Rightarrow> User \<Rightarrow> date \<Rightarrow> exception + Contact list" where
  "search_birthday par d usr now =
     (let days_param = (case par ''days'' of None \<Rightarrow> 7 | Some v \<Rightarrow> v);
          days = days_param + 1
      in birthday_loop days now (birthday_page par d usr) [])"

section \<open>Example data\<close>

text \<open>
  A store with two users and three contacts, used to run the operations on concrete
  inputs. Alice is confirmed and owns two contacts; the third contact is Bob's.

  Running \<open>login\<close> needs one digest function. \<open>example_digest\<close> is a stand-in for bcrypt
  that pads the password to 31 characters; no general fact depends on it. The stored
  passwords are what \<open>get_password_hash\<close> returns for \<open>pw123\<close> and \<open>hunter2\<close>.
\<close>

definition example_settings :: settings where
  "example_settings = \<lparr>secret_key = ''secret'', algorithm = ''HS256''\<rparr>"

definition example_digest :: bcrypt_digest where
  "example_digest ident rounds salt secret = take 31 (secret @ ''...............................'')"

definition stored_hash :: "string \<Rightarrow> string \<Rightarrow> string" where
  "stored_hash salt pw =
     (case get_password_hash example_digest salt pw of Inl _ \<Rightarrow> [] | Inr h \<Rightarrow> h)"

definition alice :: User where
  "alice = \<lparr>user_id = 1, username = ''alice'', email = ''a@x.com'',
             password = stored_hash ''abcdefghijklmnopqrstuu'' ''pw123'', confirmed = True, refresh_token = None,
             roles = Role_user, avatar = ''alice.png''\<rparr>"

definition bob :: User where
  "bob = \<lparr>user_id = 2, username = ''bob'', email = ''b@x.com'',
           password = stored_hash ''ABCDEFGHIJKLMNOPQRSTUu'' ''hunter2'', confirmed = True, refresh_token = None,
           roles = Role_user, avatar = ''bob.png''\<rparr>"

definition carol_contact :: Contact where
  "carol_contact = \<lparr>contact_id = 3, first_name = ''Carol'', last_name = ''Jones'',
     contact_email = ''carol@x.com'', phone = None,
     birthday = Some \<lparr>year = 1990, month = 12, day = 31\<rparr>,
     comments = None, favorite = False, contact_user_id = 1\<rparr>"

definition dan_contact :: Contact where
  "dan_contact = \<lparr>contact_id = 4, first_name = ''Dan'', last_name = ''Smith'',
     contact_email = ''dan@x.com'', phone = None,
     birthday = Some \<lparr>year = 1988, month = 1, day = 2\<rparr>,
     comments = None, favorite = False, contact_user_id = 1\<rparr>"

definition frank_contact :: Contact where
  "frank_contact = \<lparr>contact_id = 5, first_name = ''Frank'', last_name = ''Leap'',
     contact_email = ''frank@x.com'', phone = None,
     birthday = Some \<lparr>year = 2000, month = 2, day = 29\<rparr>,
     comments = None, favorite = False, contact_user_id = 1\<rparr>"

definition erin_contact :: Contact where
  "erin_contact = \<lparr>contact_id = 7, first_name = ''Erin'', last_name = ''Brown'',
     contact_email = ''erin@x.com'', phone = None, birthday = None,
     comments = None, favorite = True, contact_user_id = 2\<rparr>"

definition example_db :: db where
  "example_db = \<lparr>users = [alice, bob], contacts = [carol_contact, dan_contact, erin_contact]\<rparr>"

definition leap_db :: db where
  "leap_db = \<lparr>users = [alice, bob], contacts = [carol_contact, frank_contact, erin_contact]\<rparr>"

definition unreachable_cache :: redis where
  "unreachable_cache = \<lparr>reachable = False, store = Map.empty\<rparr>"

definition alice_access_token :: token where
  "alice_access_token =
     create_access_token example_settings [(''sub'', Str ''a@x.com'')] None 1000"

definition alice_refresh_token :: token where
  "alice_refresh_token =
     create_refresh_token example_settings [(''sub'', Str ''a@x.com'')] None 1000"

definition stale_refresh_token :: token where
  "stale_refresh_token =
     create_refresh_token example_settings [(''sub'', Str ''a@x.com'')] None 400"

definition ghost_refresh_token :: token where
  "ghost_refresh_token =
     create_refresh_token example_settings [(''sub'', Str ''ghost@x.com'')] None 1000"

definition alice_login :: "(exception + TokenModel) \<times> db" where
  "alice_login =
     login example_settings example_digest
       \<lparr>form_username = ''a@x.com'', form_password = ''pw123''\<rparr> example_db 1000"

definition birthday_par :: "string \<rightharpoonup> int" where
  "birthday_par = [''days'' \<mapsto> 7, ''skip'' \<mapsto> 0, ''limit'' \<mapsto> 10]"

section \<open>Facts about the token manager\<close>

lemma map_of_dict_set_same: "map_of (dict_set k v d) k = Some v"
  by (induction d) auto

lemma map_of_dict_set_other: "k' \<noteq> k \<Longrightarrow> map_of (dict_set k v d) k' = map_of d k'"
  by (induction d) auto

lemma create_refresh_token_shape:
  "\<exists>p. create_refresh_token cfg data ed t0 = JWT (algorithm cfg) (secret_key cfg) p \<and>
       map_of p ''scope'' = Some (Str ''refresh_token'')"
  by (simp add: create_refresh_token_def jwt_encode_def Let_def map_of_dict_set_same)

lemma create_access_token_shape:
  "\<exists>p. create_access_token cfg data ed t0 = JWT (algorithm cfg) (secret_key cfg) p \<and>
       map_of p ''scope'' = Some (Str ''access_token'')"
  by (simp add: create_access_token_def jwt_encode_def Let_def map_of_dict_set_same)

lemma access_subject_wrong_scope:
  assumes "tok = JWT a k p" and "map_of p ''scope'' \<noteq> Some (Str ''access_token'')"
  shows "access_subject cfg tok now = Inl credentials_exception"
  using assms by (simp add: access_subject_def jwt_decode_def)

lemma decode_refresh_token_wrong_scope:
  assumes "tok = JWT a k p" and "map_of p ''scope'' = Some s" and "s \<noteq> Str ''refresh_token''"
  shows "decode_refresh_token cfg tok now \<in>
           {Inl (HTTPException HTTP_401_UNAUTHORIZED ''Invalid scope for token'' []),
            Inl (HTTPException HTTP_401_UNAUTHORIZED ''Could not validate credentials'' [])}"
  using assms by (simp add: decode_refresh_token_def jwt_decode_def dict_getitem_def)

text \<open>
  The verifiers are not vacuous: within its lifetime a refresh token is accepted by
  \<open>decode_refresh_token\<close> and an access token by the resolver's token check.
\<close>

lemma refresh_token_roundtrip:
  "now \<le> t0 + 7 * 86400 \<Longrightarrow>
   decode_refresh_token cfg (create_refresh_token cfg [(''sub'', Str e)] None t0) now = Inr (Str e)"
  by (simp add: decode_refresh_token_def create_refresh_token_def jwt_encode_def jwt_decode_def
      validate_claims_def dict_getitem_def Let_def)

lemma access_token_roundtrip:
  "now \<le> t0 + 15 * 60 \<Longrightarrow>
   access_subject cfg (create_access_token cfg [(''sub'', Str e)] None t0) now = Inr (Str e)"
  by (simp add: access_subject_def create_access_token_def jwt_encode_def jwt_decode_def
      validate_claims_def Let_def)

text \<open>
  Claim C6. A token issued by \<open>create_refresh_token\<close> is rejected by
  \<open>get_current_user\<close> with the 401 credentials exception, and a token issued by
  \<open>create_access_token\<close> is rejected by \<open>decode_refresh_token\<close> with a 401
  \<open>HTTPException\<close>, whatever the payload data, the lifetime, the issue time, the time of
  the check, the store and the cache.
\<close>

theorem purpose_tags_not_interchangeable:
  "fst (get_current_user cfg (create_refresh_token cfg data ed t0) d r now)
     = Inl credentials_exception \<and>
   status_code credentials_exception = 401 \<and>
   decode_refresh_token cfg (create_access_token cfg data ed t0) now \<in>
     {Inl (HTTPException 401 ''Invalid scope for token'' []),
      Inl (HTTPException 401 ''Could not validate credentials'' [])}"
proof -
  obtain p where p: "create_refresh_token cfg data ed t0 = JWT (algorithm cfg) (secret_key cfg) p"
      "map_of p ''scope'' = Some (Str ''refresh_token'')"
    using create_refresh_token_shape by blast
  have "access_subject cfg (create_refresh_token cfg data ed t0) now = Inl credentials_exception"
    using p by (intro access_subject_wrong_scope [OF p(1)]) simp
  then have a: "fst (get_current_user cfg (create_refresh_token cfg data ed t0) d r now)
     = Inl credentials_exception"
    by (simp add: get_current_user_def)
  obtain q where q: "create_access_token cfg data ed t0 = JWT (algorithm cfg) (secret_key cfg) q"
      "map_of q ''scope'' = Some (Str ''access_token'')"
    using create_access_token_shape by blast
  have b: "decode_refresh_token cfg (create_access_token cfg data ed t0) now \<in>
     {Inl (HTTPException 401 ''Invalid scope for token'' []),
      Inl (HTTPException 401 ''Could not validate credentials'' [])}"
    using decode_refresh_token_wrong_scope [OF q(1) q(2), of cfg now]
    by (simp add: HTTP_401_UNAUTHORIZED_def)
  show ?thesis using a b by (simp add: credentials_exception_def HTTP_401_UNAUTHORIZED_def)
qed

section \<open>Facts about the session resolver\<close>

lemma get_current_user_unreachable:
  "access_subject cfg tok now = Inr em \<Longrightarrow> \<not> reachable r \<Longrightarrow>
   get_current_user cfg tok d r now = (Inl ConnectionError, r)"
  by (simp add: get_current_user_def redis_get_def)

lemma get_current_user_miss:
  assumes "access_subject cfg tok now = Inr em" and "reachable r"
    and "store r (user_key em) = None" and "get_user_by_email em d = Some usr"
  shows "fst (get_current_user cfg tok d r now) = Inr usr"
  using assms
  by (simp add: get_current_user_def redis_get_def redis_set_def redis_expire_def)

text \<open>
  Claim C1, at a concrete request. Alice is in the store and presents her unexpired access
  token while the cache server is down. \<open>get_current_user\<close> does not return her: the
  \<open>ConnectionError\<close> of \<open>self.r.get\<close> leaves the function. The repository's own helper
  \<open>get_cache_user_by_email\<close> treats the same failure as a miss.
\<close>

theorem get_current_user_cache_down:
  "get_user_by_email (Str ''a@x.com'') example_db = Some alice \<and>
   fst (get_current_user example_settings alice_access_token example_db unreachable_cache 1060)
     = Inl ConnectionError \<and>
   get_cache_user_by_email ''a@x.com'' (Some unreachable_cache) 1060 = None"
proof -
  have s: "access_subject example_settings alice_access_token 1060 = Inr (Str ''a@x.com'')"
    unfolding alice_access_token_def by (rule access_token_roundtrip) simp
  have "get_current_user example_settings alice_access_token example_db unreachable_cache 1060
          = (Inl ConnectionError, unreachable_cache)"
    by (rule get_current_user_unreachable [OF s]) (simp add: unreachable_cache_def)
  moreover have "get_user_by_email (Str ''a@x.com'') example_db = Some alice"
    by (simp add: get_user_by_email_def example_db_def alice_def)
  moreover have "get_cache_user_by_email ''a@x.com'' (Some unreachable_cache) 1060 = None"
    by (simp add: get_cache_user_by_email_def redis_get_def unreachable_cache_def)
  ultimately show ?thesis by simp
qed

section \<open>Facts about passwords\<close>

text \<open>Splitting and parsing: what a successful parse says about the string.\<close>

lemma split_on_nonempty: "split_on sep s \<noteq> []"
  by (induction s) (auto split: list.splits)

lemma split_on_one: "split_on sep s = [b] \<Longrightarrow> s = b"
proof (induction s arbitrary: b)
  case Nil
  then show ?case by simp
next
  case (Cons x xs)
  then show ?case
    using split_on_nonempty [of sep xs] by (auto split: if_splits list.splits)
qed

lemma split_on_two: "split_on sep s = [a, b] \<Longrightarrow> s = a @ sep # b"
proof (induction s arbitrary: a)
  case Nil
  then show ?case by simp
next
  case (Cons c cs)
  show ?case
  proof (cases "c = sep")
    case True
    with Cons.prems have "a = []" and "split_on sep cs = [b]" by auto
    then show ?thesis using True split_on_one [of sep cs b] by simp
  next
    case False
    with Cons.prems obtain p where "split_on sep cs = [p, b]" and "a = c # p"
      by (auto split: list.splits)
    with Cons.IH show ?thesis by simp
  qed
qed

lemma find_SomeD: "find P xs = Some x \<Longrightarrow> x \<in> set xs \<and> P x"
  by (induction xs) (auto split: if_splits)

lemma bcrypt_parse_ident_Some:
  assumes "bcrypt_parse_ident h = Some (ident, tail)"
  shows "ident \<in> set bcrypt_ident_values" and "h = ident @ tail"
proof -
  from assms have f: "find (\<lambda>i. take (length i) h = i) bcrypt_ident_values = Some ident"
    and t: "tail = drop (length ident) h"
    by (auto simp: bcrypt_parse_ident_def split: option.splits)
  from f show "ident \<in> set bcrypt_ident_values"
    by (auto simp: find_Some_iff)
  from f have "take (length ident) h = ident"
    by (auto simp: find_Some_iff)
  with t show "h = ident @ tail"
    by (metis append_take_drop_id)
qed

lemma rounds_of_string_Some:
  assumes "rounds_of_string s = Some n"
  shows "4 \<le> n" and "n \<le> 31" and "s = two_digits n"
proof -
  from assms have "n \<in> set [4..<32]" and e: "two_digits n = s"
    unfolding rounds_of_string_def by (auto dest: find_SomeD simp del: upt_rec_numeral)
  then have "4 \<le> n \<and> n < 32"
    by (simp only: set_upt atLeastLessThan_iff)
  with e show "4 \<le> n" and "n \<le> 31" and "s = two_digits n"
    by auto
qed

lemma bcrypt_from_string_well_formed:
  assumes "bcrypt_from_string h = Inr (ident, rounds, salt, chk)"
  shows "bcrypt_well_formed h"
proof -
  from assms obtain tail where p: "bcrypt_parse_ident h = Some (ident, tail)"
    by (auto simp: bcrypt_from_string_def Let_def
        split: option.splits if_splits list.splits prod.splits)
  with assms have nx: "ident \<noteq> ''$2x$''"
    by (auto simp: bcrypt_from_string_def)
  from assms p nx obtain rounds_str data where
    sp: "split_on CHR ''$'' tail = [rounds_str, data]"
    and r: "rounds_of_string rounds_str = Some rounds"
    and len: "length (take 22 data) = 22" "length (drop 22 data) = 31"
    and chars: "list_all (\<lambda>c. c \<in> set bcrypt64_chars) (take 22 data)"
      "list_all (\<lambda>c. c \<in> set bcrypt64_chars) (drop 22 data)"
    by (auto simp: bcrypt_from_string_def Let_def split: option.splits if_splits list.splits)
  have h: "h = ident @ two_digits rounds @ ''$'' @ data"
    using bcrypt_parse_ident_Some(2) [OF p] split_on_two [OF sp] rounds_of_string_Some(3) [OF r]
    by simp
  have id: "ident \<in> set [''$2$'', ''$2a$'', ''$2y$'', ''$2b$'']"
    using bcrypt_parse_ident_Some(1) [OF p] nx by (auto simp: bcrypt_ident_values_def)
  have rr: "rounds \<in> {4..31}"
    using rounds_of_string_Some(1,2) [OF r] by simp
  have l: "length data = 53" using len by auto
  have "set (take 22 data @ drop 22 data) \<subseteq> set bcrypt64_chars"
    using chars unfolding set_append by (auto simp: list_all_iff)
  then have c: "set data \<subseteq> set bcrypt64_chars" by simp
  show ?thesis
    unfolding bcrypt_well_formed_def using id rr h l c by blast
qed

text \<open>
  A password that can be hashed verifies against its own hash, for every digest function
  whose output has the form of a bcrypt digest; so the context does return booleans.
\<close>

lemma split_on_no_sep: "sep \<notin> set s \<Longrightarrow> split_on sep s = [s]"
  by (induction s) auto

lemma split_on_first: "sep \<notin> set a \<Longrightarrow> split_on sep (a @ sep # b) = a # split_on sep b"
  by (induction a) (auto simp: split_on_nonempty split: list.splits)

lemma rounds_12: "rounds_of_string ''12'' = Some 12"
  by (simp add: rounds_of_string_def two_digits_def)

lemma parse_2b: "bcrypt_parse_ident (''$2b$'' @ rest) = Some (''$2b$'', rest)"
  by (simp add: bcrypt_parse_ident_def bcrypt_ident_values_def)

lemma dollar_not_bcrypt64: "CHR ''$'' \<notin> set bcrypt64_chars"
  by (simp add: bcrypt64_chars_def)

lemma pwd_context_verify_own_hash:
  assumes "pwd_context_hash digest salt pw = Inr h"
    and "length salt = 22" and "set salt \<subseteq> set bcrypt64_chars"
    and "length (digest ''$2b$'' 12 salt pw) = 31"
    and "set (digest ''$2b$'' 12 salt pw) \<subseteq> set bcrypt64_chars"
  shows "pwd_context_verify digest pw h = Inr True"
proof -
  let ?chk = "digest ''$2b$'' 12 salt pw"
  from assms(1) have ok: "\<not> MAX_PASSWORD_SIZE < length pw" "CHR 0x00 \<notin> set pw"
    and h: "h = ''$2b$'' @ (''12'' @ CHR ''$'' # (salt @ ?chk))"
    by (auto simp: pwd_context_hash_def two_digits_def split: if_splits)
  have "CHR ''$'' \<notin> set (salt @ ?chk)"
    using assms(3,5) dollar_not_bcrypt64 by auto
  then have sp: "split_on CHR ''$'' (salt @ ?chk) = [salt @ ?chk]"
    by (rule split_on_no_sep)
  have fs: "bcrypt_from_string h = Inr (''$2b$'', 12, salt, ?chk)"
    unfolding bcrypt_from_string_def h parse_2b
    using assms(2-5) by (auto simp: sp rounds_12 list_all_iff Let_def)
  show ?thesis
    unfolding pwd_context_verify_def fs unfolding h parse_2b using ok by simp
qed




text \<open>A password with a NUL byte makes the context raise, whatever the stored hash.\<close>

lemma bcrypt_from_string_Inl: "bcrypt_from_string h = Inl e \<Longrightarrow> e = ValueError"
  by (auto simp: bcrypt_from_string_def Let_def
      split: option.splits if_splits list.splits prod.splits)

lemma pwd_context_verify_nul:
  assumes "CHR 0x00 \<in> set pw"
  shows "pwd_context_verify digest pw h = Inl ValueError"
proof (cases "bcrypt_from_string h")
  case (Inl e)
  with bcrypt_from_string_Inl [OF Inl] show ?thesis
    by (simp add: pwd_context_verify_def split: option.splits)
next
  case (Inr r)
  with assms show ?thesis
    by (simp add: pwd_context_verify_def split: option.splits prod.splits)
qed

text \<open>Alice's stored hash: her password verifies against it, another one does not.\<close>

lemma example_digest_pw123: "example_digest i r s ''pw123'' = ''pw123..........................''"
  by (simp add: example_digest_def)

lemma alice_password:
  "password alice = ''$2b$12$abcdefghijklmnopqrstuupw123..........................''"
  by (simp add: alice_def stored_hash_def get_password_hash_def pwd_context_hash_def
      MAX_PASSWORD_SIZE_def two_digits_def example_digest_pw123)


lemma alice_password_verifies:
  "verify_password example_digest ''pw123'' (password alice) = Inr True"
  unfolding verify_password_def alice_password
  by (simp add: pwd_context_verify_def bcrypt_from_string_def bcrypt_parse_ident_def
      bcrypt_ident_values_def rounds_12 bcrypt64_chars_def MAX_PASSWORD_SIZE_def example_digest_pw123)

lemma alice_password_rejects:
  "verify_password example_digest ''wrong'' (password alice) = Inr False"
  unfolding verify_password_def alice_password
  by (simp add: pwd_context_verify_def bcrypt_from_string_def bcrypt_parse_ident_def
      bcrypt_ident_values_def rounds_12 bcrypt64_chars_def MAX_PASSWORD_SIZE_def
      example_digest_def)

text \<open>
  Claim C7 as stated fails: \<open>not-a-hash\<close> does not have the form of a bcrypt hash, and
  \<open>verify_password\<close> does not return \<open>False\<close> on it.
\<close>

theorem verify_password_malformed_not_false:
  "\<not> bcrypt_well_formed ''not-a-hash'' \<and>
   verify_password example_digest ''pw123'' ''not-a-hash'' \<noteq> Inr False"
proof -
  have "\<not> bcrypt_well_formed ''not-a-hash''"
    by (auto simp: bcrypt_well_formed_def)
  moreover have "verify_password example_digest ''pw123'' ''not-a-hash'' = Inl ValueError"
    by (simp add: verify_password_def pwd_context_verify_def bcrypt_parse_ident_def
        bcrypt_ident_values_def)
  ultimately show ?thesis by simp
qed

text \<open>
  Claim C7, amended. For every password and every stored string that does not have the
  form of a bcrypt hash, \<open>verify_password\<close> raises \<open>ValueError\<close>: the hashing context
  raises and the function has no handler. This holds for every digest function.
\<close>

theorem verify_password_malformed_raises:
  assumes "\<not> bcrypt_well_formed h"
  shows "verify_password digest pw h = Inl ValueError"
proof (cases "bcrypt_from_string h")
  case (Inl e)
  then have "e = ValueError"
    by (rule bcrypt_from_string_Inl)
  with Inl show ?thesis
    by (simp add: verify_password_def pwd_context_verify_def split: option.splits)
next
  case (Inr r)
  obtain ident rounds salt chk where "r = (ident, rounds, salt, chk)"
    by (cases r) auto
  with Inr have "bcrypt_well_formed h"
    by (simp add: bcrypt_from_string_well_formed)
  with assms show ?thesis by simp
qed

text \<open>
  Two malformed hashes: one that the context cannot identify, and one with a bcrypt
  identifier and cost but too few characters after them.
\<close>

theorem verify_password_malformed_raises_witness:
  "\<not> bcrypt_well_formed ''not-a-hash'' \<and>
   verify_password example_digest ''pw123'' ''not-a-hash'' = Inl ValueError \<and>
   \<not> bcrypt_well_formed ''$2b$12$tooshort'' \<and>
   verify_password example_digest ''pw123'' ''$2b$12$tooshort'' = Inl ValueError"
proof -
  have a: "\<not> bcrypt_well_formed ''not-a-hash''"
    by (auto simp: bcrypt_well_formed_def)
  have b: "\<not> bcrypt_well_formed ''$2b$12$tooshort''"
    by (auto simp: bcrypt_well_formed_def two_digits_def)
  show ?thesis
    using verify_password_malformed_raises [OF a, of example_digest "''pw123''"]
      verify_password_malformed_raises [OF b, of example_digest "''pw123''"] a b
    by simp
qed

section \<open>Facts about login and refresh\<close>

lemma refresh_token_route_match:
  assumes "decode_refresh_token cfg tok now = Inr em" and "get_user_by_email em d = Some usr"
    and "refresh_token usr = Some tok"
  shows "refresh_token_route cfg tok d now = (Inl TypeError, d)"
  using assms by (simp add: refresh_token_route_def)

lemma refresh_token_route_no_user:
  assumes "decode_refresh_token cfg tok now = Inr em" and "get_user_by_email em d = None"
  shows "refresh_token_route cfg tok d now = (Inl AttributeError, d)"
  using assms by (simp add: refresh_token_route_def)

lemma alice_login_result:
  "alice_login = (Inr (TokenModel alice_access_token alice_refresh_token ''bearer''),
                  example_db\<lparr>users := [alice\<lparr>refresh_token := Some alice_refresh_token\<rparr>, bob]\<rparr>)"
proof -
  have u: "get_user_by_email (Str ''a@x.com'') example_db = Some alice"
    by (simp add: get_user_by_email_def example_db_def alice_def)
  have c: "confirmed alice" and e: "email alice = ''a@x.com''"
    by (simp_all add: alice_def)
  have upd: "update_token alice t example_db
               = example_db\<lparr>users := [alice\<lparr>refresh_token := t\<rparr>, bob]\<rparr>" for t
    by (simp add: update_token_def example_db_def alice_def bob_def)
  show ?thesis
    using u c alice_password_verifies
    by (simp add: alice_login_def login_def e upd Let_def alice_access_token_def
        alice_refresh_token_def)
qed

lemma alice_session_user:
  "get_user_by_email (Str ''a@x.com'') (snd alice_login)
     = Some (alice\<lparr>refresh_token := Some alice_refresh_token\<rparr>)"
  by (simp add: alice_login_result get_user_by_email_def example_db_def alice_def)

text \<open>
  Claim C2, at a concrete session. Alice logs in, which stores her refresh token, and
  presents that token to the refresh route a minute later. The route returns no token
  pair: it raises \<open>TypeError\<close> and leaves the store as it was, so a second call with the
  same token does the same.
\<close>

theorem refresh_token_route_stored_token:
  "fst alice_login = Inr (TokenModel alice_access_token alice_refresh_token ''bearer'') \<and>
   refresh_token_route example_settings alice_refresh_token (snd alice_login) 1060
     = (Inl TypeError, snd alice_login)"
proof -
  have d: "decode_refresh_token example_settings alice_refresh_token 1060 = Inr (Str ''a@x.com'')"
    unfolding alice_refresh_token_def by (rule refresh_token_roundtrip) simp
  have "refresh_token_route example_settings alice_refresh_token (snd alice_login) 1060
     = (Inl TypeError, snd alice_login)"
    by (rule refresh_token_route_match [OF d alice_session_user]) simp
  then show ?thesis by (simp add: alice_login_result)
qed

text \<open>
  Claim C3, at a concrete request. A refresh token signed with the server's key, unexpired
  and of refresh scope, whose subject has no row in the store: the route ends with
  \<open>AttributeError\<close>, not with an \<open>HTTPException\<close>.
\<close>

theorem refresh_token_route_unknown_subject:
  "get_user_by_email (Str ''ghost@x.com'') example_db = None \<and>
   refresh_token_route example_settings ghost_refresh_token example_db 1060
     = (Inl AttributeError, example_db)"
proof -
  have d: "decode_refresh_token example_settings ghost_refresh_token 1060
             = Inr (Str ''ghost@x.com'')"
    unfolding ghost_refresh_token_def by (rule refresh_token_roundtrip) simp
  have u: "get_user_by_email (Str ''ghost@x.com'') example_db = None"
    by (simp add: get_user_by_email_def example_db_def alice_def bob_def)
  show ?thesis using refresh_token_route_no_user [OF d u] u by simp
qed

lemma find_map_preserved:
  assumes "\<And>x. P (f x) = P x" and "find P xs = Some u"
  shows "find P (map f xs) = Some (f u)"
  using assms(2) by (induction xs) (auto simp: assms(1) split: if_splits)

lemma get_user_by_email_update_token:
  assumes "get_user_by_email em d = Some usr"
  shows "get_user_by_email em (update_token usr t d) = Some (usr\<lparr>refresh_token := t\<rparr>)"
proof -
  let ?f = "\<lambda>u. if user_id u = user_id usr then u\<lparr>refresh_token := t\<rparr> else u"
  have "find (\<lambda>u. Str (email u) = em) (map ?f (users d)) = Some (?f usr)"
    using assms unfolding get_user_by_email_def
    by (intro find_map_preserved) auto
  then show ?thesis by (simp add: get_user_by_email_def update_token_def)
qed

text \<open>
  Claim C4. A refresh request presents a token that decodes (signed with the server's key,
  unexpired) to a payload of refresh scope with a subject, the subject has a row in the
  store, and the token is not the value stored in that row. Then the request fails with
  401 and afterwards the row's stored refresh token is \<open>None\<close>.
\<close>

theorem refresh_mismatch_clears_stored_token:
  assumes "jwt_decode tok (secret_key cfg) [algorithm cfg] now = Inr p"
    and "map_of p ''scope'' = Some (Str ''refresh_token'')"
    and "map_of p ''sub'' = Some em"
    and "get_user_by_email em d = Some usr"
    and "refresh_token usr \<noteq> Some tok"
  shows "fst (refresh_token_route cfg tok d now)
           = Inl (HTTPException 401 ''Invalid refresh token'' []) \<and>
         get_user_by_email em (snd (refresh_token_route cfg tok d now))
           = Some (usr\<lparr>refresh_token := None\<rparr>)"
proof -
  have dec: "decode_refresh_token cfg tok now = Inr em"
    using assms(1-3) by (simp add: decode_refresh_token_def dict_getitem_def)
  have "refresh_token_route cfg tok d now
          = (Inl (HTTPException 401 ''Invalid refresh token'' []), update_token usr None d)"
    using dec assms(4,5) by (simp add: refresh_token_route_def HTTP_401_UNAUTHORIZED_def)
  then show ?thesis
    using get_user_by_email_update_token [OF assms(4)] by simp
qed

text \<open>
  The hypotheses of C4 hold in Alice's session when she presents an older refresh token
  of hers, issued at time 400 and still unexpired, instead of the stored one.
\<close>

theorem refresh_mismatch_clears_stored_token_witness:
  "refresh_token (alice\<lparr>refresh_token := Some alice_refresh_token\<rparr>) \<noteq> Some stale_refresh_token \<and>
   fst (refresh_token_route example_settings stale_refresh_token (snd alice_login) 1060)
     = Inl (HTTPException 401 ''Invalid refresh token'' []) \<and>
   get_user_by_email (Str ''a@x.com'')
       (snd (refresh_token_route example_settings stale_refresh_token (snd alice_login) 1060))
     = Some (alice\<lparr>refresh_token := None\<rparr>)"
proof -
  let ?p = "[(''sub'', Str ''a@x.com''), (''iat'', Num 400), (''exp'', Num 605200),
             (''scope'', Str ''refresh_token'')]"
  have h1: "jwt_decode stale_refresh_token (secret_key example_settings)
              [algorithm example_settings] 1060 = Inr ?p"
    by (simp add: stale_refresh_token_def create_refresh_token_def jwt_encode_def jwt_decode_def
        validate_claims_def example_settings_def Let_def)
  have h2: "map_of ?p ''scope'' = Some (Str ''refresh_token'')" by simp
  have h3: "map_of ?p ''sub'' = Some (Str ''a@x.com'')" by simp
  have h5: "refresh_token (alice\<lparr>refresh_token := Some alice_refresh_token\<rparr>)
              \<noteq> Some stale_refresh_token"
    by (simp add: alice_refresh_token_def stale_refresh_token_def create_refresh_token_def
        jwt_encode_def Let_def)
  show ?thesis
    using refresh_mismatch_clears_stored_token [OF h1 h2 h3 alice_session_user h5] h5
    by simp
qed

text \<open>
  Claim C5, at concrete tokens. Alice's access token and her refresh token are signed with
  the server's key and unexpired, and their scope is not \<open>email_token\<close>.
  \<open>get_email_from_token\<close> raises nothing on them: it returns \<open>None\<close>.
\<close>

theorem get_email_from_token_other_scope:
  "get_email_from_token example_settings alice_access_token 1060 = Inr None \<and>
   get_email_from_token example_settings alice_refresh_token 1060 = Inr None"
  by (simp add: get_email_from_token_def alice_access_token_def alice_refresh_token_def
      create_access_token_def create_refresh_token_def jwt_encode_def jwt_decode_def
      validate_claims_def dict_getitem_def Let_def example_settings_def)

lemma get_email_from_token_wrong_scope:
  assumes "jwt_decode tok (secret_key cfg) [algorithm cfg] now = Inr p"
    and "map_of p ''scope'' = Some s" and "s \<noteq> Str ''email_token''"
  shows "get_email_from_token cfg tok now = Inr None"
  using assms by (simp add: get_email_from_token_def dict_getitem_def)

lemma get_email_from_token_email_token:
  "now \<le> t0 + 7 * 86400 \<Longrightarrow>
   get_email_from_token cfg (create_email_token cfg [(''sub'', Str e)] t0) now = Inr (Some (Str e))"
  by (simp add: get_email_from_token_def create_email_token_def jwt_encode_def jwt_decode_def
      validate_claims_def dict_getitem_def Let_def)

section \<open>Facts about login failures\<close>

text \<open>
  Claim C8 as stated fails: the response to an unknown email differs from the response to
  Alice's email with a wrong password.
\<close>

theorem login_failures_distinguishable:
  "fst (login example_settings example_digest
          \<lparr>form_username = ''nobody@x.com'', form_password = ''pw123''\<rparr> example_db 1000)
   \<noteq> fst (login example_settings example_digest
            \<lparr>form_username = ''a@x.com'', form_password = ''wrong''\<rparr> example_db 1000)"
proof -
  have "get_user_by_email (Str ''nobody@x.com'') example_db = None"
    by (simp add: get_user_by_email_def example_db_def alice_def bob_def)
  then have 1: "fst (login example_settings example_digest
          \<lparr>form_username = ''nobody@x.com'', form_password = ''pw123''\<rparr> example_db 1000)
        = Inl (HTTPException 401 ''Invalid email'' [])"
    by (simp add: login_def HTTP_401_UNAUTHORIZED_def)
  have "get_user_by_email (Str ''a@x.com'') example_db = Some alice"
    by (simp add: get_user_by_email_def example_db_def alice_def)
  moreover have "confirmed alice" by (simp add: alice_def)
  ultimately have 2: "fst (login example_settings example_digest
            \<lparr>form_username = ''a@x.com'', form_password = ''wrong''\<rparr> example_db 1000)
        = Inl (HTTPException 401 ''Invalid password'' [])"
    using alice_password_rejects by (simp add: login_def HTTP_401_UNAUTHORIZED_def)
  show ?thesis unfolding 1 2 by simp
qed

text \<open>
  Claim C8, amended. Take two failing logins: one with an email that has no row, and one
  with an email that has a row, where the user is unconfirmed or \<open>verify_password\<close>
  returns \<open>False\<close> for the password. Both end with status 401 and leave the store
  unchanged; the detail is \<open>Invalid email\<close> for the first, and for the second
  \<open>Invalid password\<close> when the user is confirmed and \<open>Email not confirmed\<close> otherwise.
\<close>

theorem login_failure_responses:
  assumes "get_user_by_email (Str (form_username b1)) d = None"
    and "get_user_by_email (Str (form_username b2)) d = Some usr"
    and "confirmed usr \<longrightarrow>
           verify_password digest (form_password b2) (password usr) = Inr False"
  shows "login cfg digest b1 d now = (Inl (HTTPException 401 ''Invalid email'' []), d) \<and>
         login cfg digest b2 d now =
           (Inl (HTTPException 401
                   (if confirmed usr then ''Invalid password'' else ''Email not confirmed'') []), d)"
  using assms by (simp add: login_def HTTP_401_UNAUTHORIZED_def)


theorem login_failure_responses_witness:
  "login example_settings example_digest
     \<lparr>form_username = ''nobody@x.com'', form_password = ''pw123''\<rparr> example_db 1000
     = (Inl (HTTPException 401 ''Invalid email'' []), example_db) \<and>
   login example_settings example_digest
     \<lparr>form_username = ''a@x.com'', form_password = ''wrong''\<rparr> example_db 1000
     = (Inl (HTTPException 401 ''Invalid password'' []), example_db)"
proof -
  let ?b1 = "\<lparr>form_username = ''nobody@x.com'', form_password = ''pw123''\<rparr>"
  let ?b2 = "\<lparr>form_username = ''a@x.com'', form_password = ''wrong''\<rparr>"
  have h1: "get_user_by_email (Str (form_username ?b1)) example_db = None"
    by (simp add: get_user_by_email_def example_db_def alice_def bob_def)
  have h2: "get_user_by_email (Str (form_username ?b2)) example_db = Some alice"
    by (simp add: get_user_by_email_def example_db_def alice_def)
  have h3: "confirmed alice \<longrightarrow>
              verify_password example_digest (form_password ?b2) (password alice) = Inr False"
    using alice_password_rejects by simp
  have c: "confirmed alice" by (simp add: alice_def)
  show ?thesis
    using login_failure_responses [OF h1 h2 h3, of example_settings 1000] c by simp
qed

text \<open>
  A password on which the hashing context raises is not such a failing login: for a
  confirmed user the \<open>ValueError\<close> leaves \<open>login\<close>.
\<close>

lemma login_password_raises:
  assumes "get_user_by_email (Str (form_username body)) d = Some usr" and "confirmed usr"
    and "CHR 0x00 \<in> set (form_password body)"
  shows "login cfg digest body d now = (Inl ValueError, d)"
  using assms pwd_context_verify_nul [OF assms(3), of digest "password usr"]
  by (simp add: login_def verify_password_def)


section \<open>Facts about contacts\<close>

lemma get_contact_by_id_None_iff:
  "get_contact_by_id cid d usr = None \<longleftrightarrow>
     \<not> (\<exists>c\<in>set (contacts d). contact_id c = cid \<and> contact_user_id c = user_id usr)"
  by (auto simp: get_contact_by_id_def find_None_iff)

text \<open>
  Claim C9. For a user and a contact id, take a store in which no contact has that id and
  a store in which a contact has that id and every contact with that id belongs to another
  user. Fetching the contact gives the same response in both: the 404 \<open>Not found\<close>.
\<close>

theorem get_contact_absent_or_foreign:
  assumes "\<forall>c\<in>set (contacts d1). contact_id c \<noteq> cid"
    and "\<exists>c\<in>set (contacts d2). contact_id c = cid"
    and "\<forall>c\<in>set (contacts d2). contact_id c = cid \<longrightarrow> contact_user_id c \<noteq> user_id usr"
  shows "get_contact cid d1 usr = Inl (HTTPException 404 ''Not found'' []) \<and>
         get_contact cid d2 usr = get_contact cid d1 usr"
proof -
  have "get_contact_by_id cid d1 usr = None"
    using assms(1) by (auto simp: get_contact_by_id_None_iff)
  moreover have "get_contact_by_id cid d2 usr = None"
    using assms(3) by (auto simp: get_contact_by_id_None_iff)
  ultimately show ?thesis by (simp add: get_contact_def HTTP_404_NOT_FOUND_def)
qed

text \<open>
  Contact 7 is Bob's. Alice gets the same 404 for it from the example store and from the
  store without it; Bob gets the contact.
\<close>

theorem get_contact_absent_or_foreign_witness:
  "get_contact 7 (example_db\<lparr>contacts := [carol_contact, dan_contact]\<rparr>) alice
     = Inl (HTTPException 404 ''Not found'' []) \<and>
   get_contact 7 example_db alice = Inl (HTTPException 404 ''Not found'' []) \<and>
   get_contact 7 example_db bob = Inr erin_contact"
proof -
  let ?d1 = "example_db\<lparr>contacts := [carol_contact, dan_contact]\<rparr>"
  have h1: "\<forall>c\<in>set (contacts ?d1). contact_id c \<noteq> 7"
    by (simp add: carol_contact_def dan_contact_def)
  have h2: "\<exists>c\<in>set (contacts example_db). contact_id c = 7"
    by (simp add: example_db_def erin_contact_def)
  have h3: "\<forall>c\<in>set (contacts example_db). contact_id c = 7 \<longrightarrow> contact_user_id c \<noteq> user_id alice"
    by (simp add: example_db_def carol_contact_def dan_contact_def erin_contact_def alice_def)
  have b: "get_contact 7 example_db bob = Inr erin_contact"
    by (simp add: get_contact_def get_contact_by_id_def example_db_def carol_contact_def
        dan_contact_def erin_contact_def bob_def)
  show ?thesis
    using get_contact_absent_or_foreign [OF h1 h2 h3] b by simp
qed

section \<open>Facts about dates and the birthday search\<close>

lemma month_cases:
  "1 \<le> m \<Longrightarrow> m \<le> 12 \<Longrightarrow>
   m = 1 \<or> m = 2 \<or> m = 3 \<or> m = 4 \<or> m = 5 \<or> m = 6 \<or> m = 7 \<or> m = 8 \<or> m = 9 \<or> m = 10 \<or>
   m = 11 \<or> m = (12::int)"
  by arith

lemma days_before_month_step:
  assumes "1 \<le> m" and "m < 12"
  shows "days_before_month y m + days_in_month y m = days_before_month y (m + 1)"
proof -
  have "m = 1 \<or> m = 2 \<or> m = 3 \<or> m = 4 \<or> m = 5 \<or> m = 6 \<or> m = 7 \<or> m = 8 \<or> m = 9 \<or> m = 10 \<or>
   m = 11 \<or> m = 12"
    using assms by (intro month_cases) auto
  then show ?thesis
    using assms(2)
    by (elim disjE) (simp_all add: days_before_month_def days_in_month_def DAYS_BEFORE_MONTH_def
        DAYS_IN_MONTH_def)
qed

lemma days_in_month_pos:
  assumes "1 \<le> m" and "m \<le> 12"
  shows "28 \<le> days_in_month y m"
proof -
  have "m = 1 \<or> m = 2 \<or> m = 3 \<or> m = 4 \<or> m = 5 \<or> m = 6 \<or> m = 7 \<or> m = 8 \<or> m = 9 \<or> m = 10 \<or>
   m = 11 \<or> m = 12"
    using assms by (intro month_cases) auto
  then show ?thesis
    by (elim disjE) (simp_all add: days_in_month_def DAYS_IN_MONTH_def)
qed

lemma days_before_month_mono_nat:
  "1 \<le> m \<Longrightarrow> m + int k \<le> 12 \<Longrightarrow> days_before_month y m \<le> days_before_month y (m + int k)"
proof (induction k)
  case 0
  then show ?case by simp
next
  case (Suc k)
  have "days_before_month y (m + int k) + days_in_month y (m + int k)
          = days_before_month y (m + int k + 1)"
    using Suc.prems by (intro days_before_month_step) auto
  moreover have "28 \<le> days_in_month y (m + int k)"
    using Suc.prems by (intro days_in_month_pos) auto
  moreover have "days_before_month y m \<le> days_before_month y (m + int k)"
    using Suc by simp
  ultimately have "days_before_month y m \<le> days_before_month y (m + int k + 1)"
    by linarith
  moreover have "m + int (Suc k) = m + int k + 1" by simp
  ultimately show ?case by (simp only:)
qed

lemma days_before_month_next:
  assumes "1 \<le> m1" and "m1 < m2" and "m2 \<le> 12"
  shows "days_before_month y m1 + days_in_month y m1 \<le> days_before_month y m2"
proof -
  have "days_before_month y (m1 + 1) \<le> days_before_month y (m1 + 1 + int (nat (m2 - m1 - 1)))"
    using assms by (intro days_before_month_mono_nat) auto
  moreover have "m1 + 1 + int (nat (m2 - m1 - 1)) = m2"
    using assms by simp
  moreover have "days_before_month y m1 + days_in_month y m1 = days_before_month y (m1 + 1)"
    using assms by (intro days_before_month_step) auto
  ultimately show ?thesis by simp
qed

lemma ymd2ord_month_less:
  assumes "check_date_fields y m1 d1" and "check_date_fields y m2 d2" and "m1 < m2"
  shows "ymd2ord y m1 d1 < ymd2ord y m2 d2"
proof -
  have "days_before_month y m1 + days_in_month y m1 \<le> days_before_month y m2"
    using assms by (intro days_before_month_next) (auto simp: check_date_fields_def)
  moreover have "d1 \<le> days_in_month y m1" and "1 \<le> d2"
    using assms by (auto simp: check_date_fields_def)
  ultimately show ?thesis by (simp add: ymd2ord_def)
qed

lemma ymd2ord_less_iff:
  assumes "check_date_fields y m1 d1" and "check_date_fields y m2 d2"
  shows "ymd2ord y m1 d1 < ymd2ord y m2 d2 \<longleftrightarrow> m1 < m2 \<or> (m1 = m2 \<and> d1 < d2)"
proof -
  consider "m1 < m2" | "m1 = m2" | "m2 < m1" by linarith
  then show ?thesis
  proof cases
    case 1
    then show ?thesis using ymd2ord_month_less [OF assms 1] by simp
  next
    case 2
    then show ?thesis by (simp add: ymd2ord_def)
  next
    case 3
    then show ?thesis using ymd2ord_month_less [OF assms(2) assms(1) 3] by simp
  qed
qed

lemma date_lt_iff_sub_negative:
  assumes "valid_date a" and "valid_date b" and "year a = year b"
  shows "date_lt a b \<longleftrightarrow> date_sub_days a b < 0"
proof -
  have "check_date_fields (year b) (month a) (day a)" and "check_date_fields (year b) (month b) (day b)"
    using assms by (simp_all add: valid_date_def)
  from ymd2ord_less_iff [OF this] show ?thesis
    using assms(3) by (simp add: date_lt_def date_sub_days_def toordinal_def)
qed

lemma date_replace_year_props:
  assumes "date_replace_year b y = Inr bty"
  shows "valid_date bty" and "year bty = y" and "month bty = month b" and "day bty = day b"
  using assms by (auto simp: date_replace_year_def valid_date_def split: if_splits)

lemma birthday_loop_set:
  "birthday_loop days now cs acc = Inr res \<Longrightarrow>
   set res = set acc \<union>
     {c \<in> set cs. \<exists>b bty. birthday c = Some b \<and> date_replace_year b (year now) = Inr bty \<and>
                           in_range (date_sub_days bty now) days}"
proof (induction cs arbitrary: acc)
  case Nil
  then show ?case by simp
next
  case (Cons c cs)
  show ?case
  proof (cases "birthday c")
    case None
    with Cons show ?thesis by auto
  next
    case (Some b)
    show ?thesis
    proof (cases "date_replace_year b (year now)")
      case (Inl e)
      with Some Cons.prems show ?thesis by simp
    next
      case (Inr bty)
      show ?thesis
      proof (cases "in_range (date_sub_days bty now) days")
        case True
        with Some Inr Cons.prems have "birthday_loop days now cs (acc @ [c]) = Inr res"
          by (simp add: Let_def)
        from Cons.IH [OF this] Some Inr True show ?thesis by auto
      next
        case False
        with Some Inr Cons.prems have "birthday_loop days now cs acc = Inr res"
          by (simp add: Let_def)
        from Cons.IH [OF this] Some Inr False show ?thesis by auto
      qed
    qed
  qed
qed

lemma birthday_loop_total:
  "\<forall>c\<in>set cs. \<forall>b. birthday c = Some b \<longrightarrow> check_date_fields (year now) (month b) (day b) \<Longrightarrow>
   \<exists>res. birthday_loop days now cs acc = Inr res"
  by (induction cs arbitrary: acc) (auto simp: date_replace_year_def Let_def split: option.splits)

text \<open>
  The loop returns an error exactly when a birthday cannot be moved to the current year;
  when every birthday of the page can, \<open>search_birthday\<close> returns a list.
\<close>

lemma search_birthday_total:
  assumes "\<forall>c\<in>set (birthday_page par d usr). \<forall>b. birthday c = Some b \<longrightarrow>
             check_date_fields (year now) (month b) (day b)"
  shows "\<exists>res. search_birthday par d usr now = Inr res"
  using birthday_loop_total [OF assms] by (simp add: search_birthday_def Let_def)

text \<open>
  What holds when \<open>search_birthday\<close> returns a list on a valid date \<open>now\<close>. Every
  returned contact has a birthday which, moved to the current year, is not before \<open>now\<close>.
  A contact whose birthday moved to the current year is before \<open>now\<close> is not returned,
  however close the birthday's next occurrence is. A contact of the queried page whose
  birthday moved to the current year is exactly \<open>days\<close> days after \<open>now\<close> (\<open>days\<close> the
  parameter, 7 by default, and not negative) is returned.
\<close>

lemma search_birthday_returned_window:
  assumes "search_birthday par d usr now = Inr res" and "valid_date now"
  shows "(\<forall>c\<in>set res. \<exists>b bty. birthday c = Some b \<and>
            date_replace_year b (year now) = Inr bty \<and> \<not> date_lt bty now) \<and>
         (\<forall>c b bty.
            birthday c = Some b \<and> date_replace_year b (year now) = Inr bty \<and> date_lt bty now
              \<longrightarrow> c \<notin> set res) \<and>
         (\<forall>c\<in>set (birthday_page par d usr). \<forall>b bty.
            birthday c = Some b \<and> date_replace_year b (year now) = Inr bty \<and>
            0 \<le> date_sub_days bty now \<and>
            date_sub_days bty now = (case par ''days'' of None \<Rightarrow> 7 | Some v \<Rightarrow> v)
              \<longrightarrow> c \<in> set res)"
proof -
  let ?n = "case par ''days'' of None \<Rightarrow> 7 | Some v \<Rightarrow> v"
  have loop: "birthday_loop (?n + 1) now (birthday_page par d usr) [] = Inr res"
    using assms(1) by (simp add: search_birthday_def Let_def)
  have res: "set res = {c \<in> set (birthday_page par d usr). \<exists>b bty. birthday c = Some b \<and>
               date_replace_year b (year now) = Inr bty \<and>
               in_range (date_sub_days bty now) (?n + 1)}"
    using birthday_loop_set [OF loop] by simp
  have before: "date_lt bty now \<longleftrightarrow> date_sub_days bty now < 0"
    if "date_replace_year b (year now) = Inr bty" for b bty
    using date_replace_year_props [OF that] assms(2) by (intro date_lt_iff_sub_negative) auto
  have 1: "\<forall>c\<in>set res. \<exists>b bty. birthday c = Some b \<and>
            date_replace_year b (year now) = Inr bty \<and> \<not> date_lt bty now"
    using res before by (fastforce simp: in_range_def)
  have 2: "\<forall>c b bty.
            birthday c = Some b \<and> date_replace_year b (year now) = Inr bty \<and> date_lt bty now
              \<longrightarrow> c \<notin> set res"
    using 1 by fastforce
  have 3: "\<forall>c\<in>set (birthday_page par d usr). \<forall>b bty.
            birthday c = Some b \<and> date_replace_year b (year now) = Inr bty \<and>
            0 \<le> date_sub_days bty now \<and> date_sub_days bty now = ?n
              \<longrightarrow> c \<in> set res"
    unfolding res by (auto simp: in_range_def)
  show ?thesis using 1 2 3 by blast
qed

text \<open>
  Alice's contacts on two days of December 2024 with \<open>days = 7\<close>. On the 24th Carol's
  birthday, 31 December, is exactly seven days ahead and she is returned. On the 30th
  Dan's birthday, 2 January, is three days ahead in 2025 but was in January of 2024, and
  he is not returned.
\<close>

lemma alice_birthday_page: "birthday_page birthday_par example_db alice = [carol_contact, dan_contact]"
  by (simp add: birthday_page_def birthday_par_def example_db_def alice_def carol_contact_def
      dan_contact_def erin_contact_def sql_limit_def sql_offset_def)

lemma birthday_par_days: "birthday_par ''days'' = Some 7"
  by (simp add: birthday_par_def)

lemma search_birthday_on_dec24:
  "search_birthday birthday_par example_db alice \<lparr>year = 2024, month = 12, day = 24\<rparr>
     = Inr [carol_contact]"
  by (simp add: search_birthday_def alice_birthday_page birthday_par_days carol_contact_def dan_contact_def
      date_replace_year_def check_date_fields_def days_in_month_def DAYS_IN_MONTH_def
      date_sub_days_def toordinal_def ymd2ord_def days_before_year_def days_before_month_def
      DAYS_BEFORE_MONTH_def is_leap_def in_range_def Let_def)

lemma search_birthday_on_dec30:
  "search_birthday birthday_par example_db alice \<lparr>year = 2024, month = 12, day = 30\<rparr>
     = Inr [carol_contact]"
  by (simp add: search_birthday_def alice_birthday_page birthday_par_days carol_contact_def dan_contact_def
      date_replace_year_def check_date_fields_def days_in_month_def DAYS_IN_MONTH_def
      date_sub_days_def toordinal_def ymd2ord_def days_before_year_def days_before_month_def
      DAYS_BEFORE_MONTH_def is_leap_def in_range_def Let_def)

lemma search_birthday_december_2024:
  "search_birthday birthday_par example_db alice \<lparr>year = 2024, month = 12, day = 24\<rparr>
     = Inr [carol_contact] \<and>
   carol_contact \<in> set (birthday_page birthday_par example_db alice) \<and>
   date_sub_days \<lparr>year = 2024, month = 12, day = 31\<rparr> \<lparr>year = 2024, month = 12, day = 24\<rparr> = 7 \<and>
   search_birthday birthday_par example_db alice \<lparr>year = 2024, month = 12, day = 30\<rparr>
     = Inr [carol_contact] \<and>
   dan_contact \<in> set (birthday_page birthday_par example_db alice) \<and>
   date_lt \<lparr>year = 2024, month = 1, day = 2\<rparr> \<lparr>year = 2024, month = 12, day = 30\<rparr> \<and>
   date_sub_days \<lparr>year = 2025, month = 1, day = 2\<rparr> \<lparr>year = 2024, month = 12, day = 30\<rparr> = 3 \<and>
   dan_contact \<notin> set [carol_contact] \<and>
   carol_contact \<in> set [carol_contact]"
proof -
  let ?d24 = "\<lparr>year = 2024, month = 12, day = 24\<rparr>"
  let ?d30 = "\<lparr>year = 2024, month = 12, day = 30\<rparr>"
  have v24: "valid_date ?d24" and v30: "valid_date ?d30"
    by (simp_all add: valid_date_def check_date_fields_def days_in_month_def DAYS_IN_MONTH_def)
  have carol_b: "birthday carol_contact = Some \<lparr>year = 1990, month = 12, day = 31\<rparr>"
    by (simp add: carol_contact_def)
  have carol_r: "date_replace_year \<lparr>year = 1990, month = 12, day = 31\<rparr> (year ?d24)
                   = Inr \<lparr>year = 2024, month = 12, day = 31\<rparr>"
    by (simp add: date_replace_year_def check_date_fields_def days_in_month_def DAYS_IN_MONTH_def)
  have carol_d: "date_sub_days \<lparr>year = 2024, month = 12, day = 31\<rparr> ?d24 = 7"
    by (simp add: date_sub_days_def toordinal_def ymd2ord_def)
  have dan_b: "birthday dan_contact = Some \<lparr>year = 1988, month = 1, day = 2\<rparr>"
    by (simp add: dan_contact_def)
  have dan_r: "date_replace_year \<lparr>year = 1988, month = 1, day = 2\<rparr> (year ?d30)
                 = Inr \<lparr>year = 2024, month = 1, day = 2\<rparr>"
    by (simp add: date_replace_year_def check_date_fields_def days_in_month_def DAYS_IN_MONTH_def)
  have dan_lt: "date_lt \<lparr>year = 2024, month = 1, day = 2\<rparr> ?d30"
    by (simp add: date_lt_def)
  have dan_next: "date_sub_days \<lparr>year = 2025, month = 1, day = 2\<rparr> ?d30 = 3"
    by (simp add: date_sub_days_def toordinal_def ymd2ord_def days_before_year_def
        days_before_month_def DAYS_BEFORE_MONTH_def is_leap_def)
  have carol_in: "carol_contact \<in> set (birthday_page birthday_par example_db alice)"
    and dan_in: "dan_contact \<in> set (birthday_page birthday_par example_db alice)"
    by (simp_all add: alice_birthday_page)
  have "carol_contact \<in> set [carol_contact]"
    using search_birthday_returned_window [OF search_birthday_on_dec24 v24] carol_in carol_b carol_r carol_d birthday_par_days
    by simp
  moreover have "dan_contact \<notin> set [carol_contact]"
    using search_birthday_returned_window [OF search_birthday_on_dec30 v30] dan_b dan_r dan_lt by blast
  ultimately show ?thesis
    using search_birthday_on_dec24 search_birthday_on_dec30 carol_in dan_in carol_d dan_lt dan_next by simp
qed

text \<open>
  Claim C10, at a concrete page. On 24 December 2025 with \<open>days = 7\<close>, Alice's page holds
  Carol, whose birthday 31 December is exactly seven days ahead in the current year, and
  Frank, born on 29 February 2000. 2025 is a common year, so \<open>birthday.replace\<close> raises
  \<open>ValueError\<close> on Frank's birthday: \<open>search_birthday\<close> returns no list, and Carol is
  not included.
\<close>

lemma leap_birthday_page:
  "birthday_page birthday_par leap_db alice = [carol_contact, frank_contact]"
  by (simp add: birthday_page_def birthday_par_def leap_db_def alice_def carol_contact_def
      frank_contact_def erin_contact_def sql_limit_def sql_offset_def)

theorem search_birthday_leap_day_raises:
  "valid_date \<lparr>year = 2025, month = 12, day = 24\<rparr> \<and>
   carol_contact \<in> set (birthday_page birthday_par leap_db alice) \<and>
   birthday carol_contact = Some \<lparr>year = 1990, month = 12, day = 31\<rparr> \<and>
   date_replace_year \<lparr>year = 1990, month = 12, day = 31\<rparr> 2025
     = Inr \<lparr>year = 2025, month = 12, day = 31\<rparr> \<and>
   date_sub_days \<lparr>year = 2025, month = 12, day = 31\<rparr> \<lparr>year = 2025, month = 12, day = 24\<rparr> = 7 \<and>
   birthday_par ''days'' = Some 7 \<and>
   date_replace_year \<lparr>year = 2000, month = 2, day = 29\<rparr> 2025 = Inl ValueError \<and>
   search_birthday birthday_par leap_db alice \<lparr>year = 2025, month = 12, day = 24\<rparr>
     = Inl ValueError"
proof -
  have v: "valid_date \<lparr>year = 2025, month = 12, day = 24\<rparr>"
    by (simp add: valid_date_def check_date_fields_def days_in_month_def DAYS_IN_MONTH_def)
  have carol_in: "carol_contact \<in> set (birthday_page birthday_par leap_db alice)"
    by (simp add: leap_birthday_page)
  have carol_b: "birthday carol_contact = Some \<lparr>year = 1990, month = 12, day = 31\<rparr>"
    by (simp add: carol_contact_def)
  have carol_r: "date_replace_year \<lparr>year = 1990, month = 12, day = 31\<rparr> 2025
                   = Inr \<lparr>year = 2025, month = 12, day = 31\<rparr>"
    by (simp add: date_replace_year_def check_date_fields_def days_in_month_def DAYS_IN_MONTH_def)
  have carol_d: "date_sub_days \<lparr>year = 2025, month = 12, day = 31\<rparr>
                   \<lparr>year = 2025, month = 12, day = 24\<rparr> = 7"
    by (simp add: date_sub_days_def toordinal_def ymd2ord_def)
  have frank_r: "date_replace_year \<lparr>year = 2000, month = 2, day = 29\<rparr> 2025 = Inl ValueError"
    by (simp add: date_replace_year_def check_date_fields_def days_in_month_def DAYS_IN_MONTH_def
        is_leap_def)
  have raises: "search_birthday birthday_par leap_db alice \<lparr>year = 2025, month = 12, day = 24\<rparr>
                  = Inl ValueError"
    by (simp add: search_birthday_def leap_birthday_page birthday_par_days carol_contact_def
        frank_contact_def date_replace_year_def check_date_fields_def days_in_month_def
        DAYS_IN_MONTH_def date_sub_days_def toordinal_def ymd2ord_def days_before_year_def
        days_before_month_def DAYS_BEFORE_MONTH_def is_leap_def in_range_def Let_def)
  show ?thesis
    using v carol_in carol_b carol_r carol_d birthday_par_days frank_r raises by simp
qed

end
